theory Spec2Isabelle
  imports Main
begin

section \<open>python-jss: the server session, the object factory and the QuerySet\<close>

text \<open>
  A shallow embedding of \<^verbatim>\<open>jss/jamf_software_server.py\<close> (classes \<^verbatim>\<open>JSS\<close> and
  \<^verbatim>\<open>JSSObjectFactory\<close>) and of \<^verbatim>\<open>jss/queryset.py\<close> (class \<^verbatim>\<open>QuerySet\<close>).

  Python text is modelled by \<open>string\<close>: the bytes of a Python 2 \<^verbatim>\<open>str\<close>, or the UTF-8
  bytes of a \<^verbatim>\<open>unicode\<close> value, so that \<^verbatim>\<open>.encode("utf_8")\<close> is the identity on
  them.  Python 2's implicit conversions between \<^verbatim>\<open>str\<close> and \<^verbatim>\<open>unicode\<close> (joining,
  formatting, comparing) are taken to succeed, as they do on ASCII text.

  Exceptions are values of the type \<open>error\<close>; a method that can raise returns
  \<open>error + 'a\<close>.  The HTTP server is a state machine the session talks to; every
  request the session sends is appended to a log carried in the world state.
\<close>

subsection \<open>Resource types\<close>

text \<open>
  A class object of \<^verbatim>\<open>jssobjects\<close> (imported at lines 32-48 of the session module) is
  identified by its \<^verbatim>\<open>__name__\<close>: the sixty imported classes have sixty names.
  \<^verbatim>\<open>obj_class is Computer\<close> is equality with \<open>Computer\<close>.
\<close>

datatype jss_type = JSSClass (type_name: string)

definition Computer :: jss_type where
  "Computer = JSSClass ''Computer''"

subsection \<open>XML elements and Python values\<close>

text \<open>
  An \<^verbatim>\<open>ElementTree.Element\<close>: its tag, its text (\<^verbatim>\<open>None\<close> when there is none) and its
  children in document order.  Attributes are not read by the code modelled here.
\<close>

datatype element = Element (tag: string) (etext: "string option") (children: "element list")

text \<open>
  The values a caller can hand to the dynamically typed \<^verbatim>\<open>data\<close> and \<^verbatim>\<open>subset\<close>
  parameters.  Python 2 has two integer types and two string types: \<open>PInt\<close> is an
  \<^verbatim>\<open>int\<close> and \<open>PLong\<close> a \<^verbatim>\<open>long\<close> (which is not an instance of \<^verbatim>\<open>int\<close>); \<open>PStr\<close> is a
  \<^verbatim>\<open>str\<close> and \<open>PUnicode\<close> a \<^verbatim>\<open>unicode\<close>, held as its UTF-8 bytes.
\<close>

datatype pyval =
    PNone
  | PBool bool
  | PInt int
  | PLong int
  | PStr string
  | PUnicode string
  | PList "pyval list"
  | PTuple "pyval list"
  | PElement element

text \<open>Python truthiness, as \<^verbatim>\<open>if subset:\<close> evaluates it.  An element is true when it
  has children.\<close>

fun truthy :: "pyval \<Rightarrow> bool" where
  "truthy PNone = False"
| "truthy (PBool b) = b"
| "truthy (PInt i) = (i \<noteq> 0)"
| "truthy (PLong i) = (i \<noteq> 0)"
| "truthy (PStr s) = (s \<noteq> [])"
| "truthy (PUnicode s) = (s \<noteq> [])"
| "truthy (PList xs) = (xs \<noteq> [])"
| "truthy (PTuple xs) = (xs \<noteq> [])"
| "truthy (PElement e) = (children e \<noteq> [])"

subsection \<open>String primitives of the Python library\<close>

text \<open>\<^verbatim>\<open>str.upper()\<close>: the ASCII letters change, every other byte stays.\<close>

definition upper_char :: "char \<Rightarrow> char" where
  "upper_char c =
     (let n = (of_char c :: nat) in if 97 \<le> n \<and> n \<le> 122 then char_of (n - 32) else c)"

definition str_upper :: "string \<Rightarrow> string" where
  "str_upper s = map upper_char s"

text \<open>
  \<^verbatim>\<open>unicode.upper()\<close> maps every code point to its upper case.  The code points whose
  upper case is an ASCII letter are the ASCII letters, U+0131 (dotless i, UTF-8
  \<^verbatim>\<open>C4 B1\<close>) with upper case \<^verbatim>\<open>I\<close>, and U+017F (long s, UTF-8 \<^verbatim>\<open>C5 BF\<close>) with upper
  case \<^verbatim>\<open>S\<close>: these are mapped here.  The upper case of any other code point beyond
  ASCII is again beyond ASCII; its bytes are left as they are, so the result is
  Python's wherever it is an ASCII string, and beyond ASCII wherever Python's is.
\<close>

fun unicode_upper :: "string \<Rightarrow> string" where
  "unicode_upper [] = []"
| "unicode_upper [c] = [upper_char c]"
| "unicode_upper (c # d # cs) =
     (if c = CHR 0xC4 \<and> d = CHR 0xB1 then CHR ''I'' # unicode_upper cs
      else if c = CHR 0xC5 \<and> d = CHR 0xBF then CHR ''S'' # unicode_upper cs
      else upper_char c # unicode_upper (d # cs))"

text \<open>\<^verbatim>\<open>s.split(sep)\<close> for a one-character separator: never an empty list.\<close>

fun str_split :: "char \<Rightarrow> string \<Rightarrow> string list" where
  "str_split sep [] = [[]]"
| "str_split sep (c # cs) =
     (if c = sep then [] # str_split sep cs
      else (case str_split sep cs of
              w # ws \<Rightarrow> (c # w) # ws
            | [] \<Rightarrow> [[c]]))"

text \<open>
  \<^verbatim>\<open>sep.join(items)\<close>: a \<^verbatim>\<open>TypeError\<close> when an item is neither a \<^verbatim>\<open>str\<close> nor a
  \<^verbatim>\<open>unicode\<close> (\<open>text_items\<close> is \<open>None\<close> then).  \<open>str_items\<close> are the items of a list of
  \<^verbatim>\<open>str\<close> only.
\<close>

fun join :: "string \<Rightarrow> string list \<Rightarrow> string" where
  "join sep [] = []"
| "join sep [x] = x"
| "join sep (x # y # ys) = x @ sep @ join sep (y # ys)"

fun str_items :: "pyval list \<Rightarrow> string list option" where
  "str_items [] = Some []"
| "str_items (PStr s # xs) = map_option ((#) s) (str_items xs)"
| "str_items (_ # xs) = None"

fun text_items :: "pyval list \<Rightarrow> string list option" where
  "text_items [] = Some []"
| "text_items (PStr s # xs) = map_option ((#) s) (text_items xs)"
| "text_items (PUnicode s # xs) = map_option ((#) s) (text_items xs)"
| "text_items (_ # xs) = None"

text \<open>
  \<^verbatim>\<open>urllib.quote\<close> with its default \<^verbatim>\<open>safe='/'\<close>: letters, digits and \<^verbatim>\<open>_.-/\<close> stay,
  every other byte becomes \<^verbatim>\<open>%XX\<close> in upper-case hexadecimal.
\<close>

definition always_safe :: "char \<Rightarrow> bool" where
  "always_safe c =
     (let n = (of_char c :: nat)
      in (65 \<le> n \<and> n \<le> 90) \<or> (97 \<le> n \<and> n \<le> 122) \<or> (48 \<le> n \<and> n \<le> 57)
         \<or> c = CHR ''_'' \<or> c = CHR ''.'' \<or> c = CHR ''-'')"

definition hex_digit :: "nat \<Rightarrow> char" where
  "hex_digit d = (if d < 10 then char_of (48 + d) else char_of (55 + d))"

definition quote_char :: "char \<Rightarrow> string" where
  "quote_char c =
     (if always_safe c \<or> c = CHR ''/'' then [c]
      else [CHR ''%'', hex_digit ((of_char c :: nat) div 16), hex_digit ((of_char c :: nat) mod 16)])"

definition quote :: "string \<Rightarrow> string" where
  "quote s = concat (map quote_char s)"

text \<open>
  \<^verbatim>\<open>re.search(r"<id>([0-9]+)</id>", s)\<close>: the leftmost position where the pattern
  matches, and there the digits of group 1.  The digits are followed by \<^verbatim>\<open><\<close>, so the
  greedy run of digits is the only candidate at a position.  \<open>None\<close> is Python's
  \<^verbatim>\<open>None\<close> (no match).
\<close>

definition is_digit :: "char \<Rightarrow> bool" where
  "is_digit c = (let n = (of_char c :: nat) in 48 \<le> n \<and> n \<le> 57)"

definition match_id :: "string \<Rightarrow> string option" where
  "match_id s =
     (if take 4 s = ''<id>'' then
        (let rest = drop 4 s;
             ds = takeWhile is_digit rest;
             after = dropWhile is_digit rest
         in if ds \<noteq> [] \<and> take 5 after = ''</id>'' then Some ds else None)
      else None)"

fun re_search_id :: "string \<Rightarrow> string option" where
  "re_search_id [] = None"
| "re_search_id (c # cs) =
     (case match_id (c # cs) of
        Some ds \<Rightarrow> Some ds
      | None \<Rightarrow> re_search_id cs)"

text \<open>The number \<^verbatim>\<open>int(ds)\<close> denotes, for a string of decimal digits.\<close>

definition py_int :: "string \<Rightarrow> int" where
  "py_int ds = foldl (\<lambda>n c. 10 * n + (int (of_char c) - 48)) 0 ds"

subsection \<open>Failures, descriptors and results\<close>

text \<open>
  The exceptions the modelled code raises, itself or through a built-in operation.
  \<open>AttributeError\<close> is what \<^verbatim>\<open>None.group(1)\<close> and \<^verbatim>\<open>5.upper()\<close> raise.
\<close>

datatype error =
    TypeError
  | ValueError
  | AttributeError
  | IndexError
  | JSSMethodNotAllowedError string
  | JSSGetError string
  | JSSPostError string

text \<open>
  Modelled from the spec: the failure kind "Invalid-input" of the specification names no
  class of the code; the code raises the built-in \<^verbatim>\<open>TypeError\<close> (malformed subset) and
  \<^verbatim>\<open>ValueError\<close> (unsupported query argument, mixed QuerySet), which are the two errors
  counted as Invalid-input here.
\<close>

definition invalid_input :: "error \<Rightarrow> bool" where
  "invalid_input e = (e = TypeError \<or> e = ValueError)"

text \<open>
  The class attributes of a \<^verbatim>\<open>JSSObject\<close> subclass that the factory reads.  The module
  \<^verbatim>\<open>jssobjects\<close> is not part of the sources, so the table of descriptors is a
  parameter (\<open>classes\<close> below).  \<open>container\<close> is the empty string when the class declares
  none (\<^verbatim>\<open>if obj_class.container:\<close> tests its truth); \<open>meta_name\<close> is
  \<^verbatim>\<open>obj_class.__class__.__name__\<close>.
\<close>

record descriptor =
  can_list :: bool
  can_get :: bool
  can_post :: bool
  container :: string
  get_url :: "pyval \<Rightarrow> string"
  get_post_url :: string
  meta_name :: string

text \<open>
  What \<^verbatim>\<open>get_object\<close> returns: a \<^verbatim>\<open>JSSObjectList\<close> of \<^verbatim>\<open>JSSListData\<close> records, or an
  instance \<^verbatim>\<open>obj_class(jss, xmldata)\<close>.  The constructors of the absent modules are kept
  as constructors.  A \<^verbatim>\<open>JSSListData\<close> holds the class and a dictionary from tag to text.
\<close>

datatype list_data = JSSListData (ld_class: jss_type) (ld_dict: "string \<rightharpoonup> string option")

datatype jss_result =
    JSSObjectList jss_type "list_data list"
  | JSSObject jss_type element

subsection \<open>The HTTP session\<close>

datatype http_method = GET | POST

datatype request = Request (req_method: http_method) (req_url: string) (req_body: "string option")

record response =
  status_code :: int
  resp_text :: string

text \<open>
  The world a call runs in: the state of the server, the requests sent so far (oldest
  first) and the lines printed in verbose mode.
\<close>

record 's world =
  server :: 's
  sent :: "request list"
  stdout :: "string list"

text \<open>
  What the code takes from outside \<^verbatim>\<open>src/\<close>: the server's reaction to a request, the
  XML parser and printer of \<^verbatim>\<open>ElementTree\<close> (\<open>None\<close> is a \<^verbatim>\<open>ParseError\<close>), the
  message \<^verbatim>\<open>tools.error_handler\<close> builds from a failed response, the descriptors, and
  the platform's \<^verbatim>\<open>sys.maxint\<close>.
\<close>

record 's env =
  handle :: "'s \<Rightarrow> request \<Rightarrow> response \<times> 's"
  fromstring :: "string \<Rightarrow> element option"
  tostring :: "element \<Rightarrow> string"
  error_message :: "response \<Rightarrow> string"
  classes :: "jss_type \<Rightarrow> descriptor"
  sys_maxint :: int

record jss =
  base_url :: string
  verbose :: bool

text \<open>
  Modelled from the spec: \<^verbatim>\<open>tools.error_handler\<close> is missing from the sources; by
  section 4.3 it builds a message from the failed response and raises the given kind.
\<close>

definition error_handler :: "'s env \<Rightarrow> (string \<Rightarrow> error) \<Rightarrow> response \<Rightarrow> error" where
  "error_handler env kind resp = kind (error_message env resp)"

text \<open>
  \<^verbatim>\<open>int(ds)\<close> as a value: an \<^verbatim>\<open>int\<close> up to \<^verbatim>\<open>sys.maxint\<close>, a \<^verbatim>\<open>long\<close> beyond it.
\<close>

definition py2_int :: "'s env \<Rightarrow> string \<Rightarrow> pyval" where
  "py2_int env ds = (if py_int ds \<le> sys_maxint env then PInt (py_int ds) else PLong (py_int ds))"

text \<open>The property \<^verbatim>\<open>JSS._url\<close> (lines 154-157).\<close>

definition jss_url :: "jss \<Rightarrow> string" where
  "jss_url j = base_url j @ ''/'' @ ''JSSResource''"

text \<open>One round trip of \<^verbatim>\<open>self.session\<close>: the request is logged, the server moves on.\<close>

definition send :: "'s env \<Rightarrow> 's world \<Rightarrow> request \<Rightarrow> response \<times> 's world" where
  "send env w req =
     (case handle env (server w) req of
        (resp, srv') \<Rightarrow> (resp, w\<lparr>server := srv', sent := sent w @ [req]\<rparr>))"

definition print_line :: "'s world \<Rightarrow> string \<Rightarrow> 's world" where
  "print_line w line = w\<lparr>stdout := stdout w @ [line]\<rparr>"

text \<open>\<^verbatim>\<open>JSS.get\<close> (lines 184-221).\<close>

definition JSS_get :: "'s env \<Rightarrow> jss \<Rightarrow> 's world \<Rightarrow> string \<Rightarrow> (error + element) \<times> 's world" where
  "JSS_get env j w url_path =
     (let request_url = jss_url j @ quote url_path in
      case send env w (Request GET request_url None) of
        (resp, w1) \<Rightarrow>
          if status_code resp = 200 \<and> verbose j then
            (let w2 = print_line w1 (''GET '' @ request_url @ '': Success.'') in
             case fromstring env (resp_text resp) of
               None \<Rightarrow> (Inl (JSSGetError (''Error Parsing XML:'' @ [CHR 0x0A] @ resp_text resp)), w2)
             | Some xmldata \<Rightarrow> (Inr xmldata, w2))
          else if status_code resp \<ge> 400 then
            (Inl (error_handler env JSSGetError resp), w1)
          else
            (case fromstring env (resp_text resp) of
               None \<Rightarrow> (Inl (JSSGetError (''Error Parsing XML:'' @ [CHR 0x0A] @ resp_text resp)), w1)
             | Some xmldata \<Rightarrow> (Inr xmldata, w1)))"

subsection \<open>The object factory\<close>

text \<open>
  Lines 722-727 of \<^verbatim>\<open>get_object\<close>.  After them \<^verbatim>\<open>subset\<close> is either a false value (only
  its truth is tested from then on: \<open>None\<close> here) or a non-empty list (\<open>Some xs\<close>).
\<close>

definition normalize_subset :: "pyval \<Rightarrow> error + pyval list option" where
  "normalize_subset sub =
     (if truthy sub then
        (case sub of
           PList xs \<Rightarrow> Inr (Some xs)
         | PStr s \<Rightarrow> Inr (Some (map PStr (str_split CHR ''&'' s)))
         | PUnicode s \<Rightarrow> Inr (Some (map PUnicode (str_split CHR ''&'' s)))
         | _ \<Rightarrow> Inl TypeError)
      else Inr None)"

text \<open>
  Lines 734-735: \<^verbatim>\<open>subset and len(subset) == 1 and subset[0].upper() == "BASIC"\<close>, which
  raises \<^verbatim>\<open>AttributeError\<close> when the single item has no \<^verbatim>\<open>upper\<close>.
\<close>

definition is_basic :: "pyval list option \<Rightarrow> error + bool" where
  "is_basic sub =
     (case sub of
        None \<Rightarrow> Inr False
      | Some xs \<Rightarrow>
          if length xs = 1 then
            (case hd xs of
               PStr s \<Rightarrow> Inr (str_upper s = ''BASIC'')
             | PUnicode s \<Rightarrow> Inr (unicode_upper s = ''BASIC'')
             | _ \<Rightarrow> Inl AttributeError)
          else Inr False)"

text \<open>
  Lines 758-761: the URL of a single object, with \<^verbatim>\<open>"general"\<close> appended to the requested
  subset when it is not in it (\<^verbatim>\<open>u"general"\<close> equals \<^verbatim>\<open>"general"\<close>).
\<close>

definition subset_url :: "string \<Rightarrow> pyval list option \<Rightarrow> error + string" where
  "subset_url url sub =
     (case sub of
        None \<Rightarrow> Inr url
      | Some xs \<Rightarrow>
          (let xs' = (if PStr ''general'' \<in> set xs \<or> PUnicode ''general'' \<in> set xs then xs
                      else xs @ [PStr ''general'']) in
           case text_items xs' of
             None \<Rightarrow> Inl TypeError
           | Some tags \<Rightarrow> Inr (url @ ''/subset/'' @ join ''&'' tags)))"

text \<open>
  \<^verbatim>\<open>Element.find(path)\<close> for a path that is a plain tag: the first child with that tag.
\<close>

definition find_child :: "element \<Rightarrow> string \<Rightarrow> element option" where
  "find_child e path = List.find (\<lambda>c. tag c = path) (children e)"

text \<open>
  The dictionary comprehension \<^verbatim>\<open>{i.tag: i.text for i in response_object}\<close>: a later child
  with the same tag replaces an earlier one.
\<close>

definition tag_text_dict :: "element \<Rightarrow> (string \<rightharpoonup> string option)" where
  "tag_text_dict e = foldl (\<lambda>d i. d(tag i \<mapsto> etext i)) Map.empty (children e)"

text \<open>\<^verbatim>\<open>JSSObjectFactory._build_jss_object_list\<close> (lines 787-796).\<close>

definition build_jss_object_list :: "element \<Rightarrow> jss_type \<Rightarrow> jss_result" where
  "build_jss_object_list resp obj_class =
     (let response_objects = filter (\<lambda>item. tag item \<noteq> ''size'') (children resp);
          objects = map (\<lambda>response_object. JSSListData obj_class (tag_text_dict response_object))
                        response_objects
      in JSSObjectList obj_class objects)"

text \<open>
  \<^verbatim>\<open>isinstance(data, (basestring, int))\<close>; a Python \<^verbatim>\<open>bool\<close> is an \<^verbatim>\<open>int\<close>, a \<^verbatim>\<open>long\<close> is
  not.
\<close>

fun is_basestring_or_int :: "pyval \<Rightarrow> bool" where
  "is_basestring_or_int (PStr s) = True"
| "is_basestring_or_int (PUnicode s) = True"
| "is_basestring_or_int (PInt i) = True"
| "is_basestring_or_int (PBool b) = True"
| "is_basestring_or_int _ = False"

fun is_element :: "pyval \<Rightarrow> bool" where
  "is_element (PElement e) = True"
| "is_element _ = False"

fun the_element :: "pyval \<Rightarrow> element" where
  "the_element (PElement e) = e"
| "the_element _ = Element [] None []"

text \<open>
  \<^verbatim>\<open>JSSObjectFactory.get_object\<close> (lines 685-785) and \<^verbatim>\<open>JSS.post\<close> (lines 223-272), which
  call each other: \<^verbatim>\<open>get_object\<close> posts a new-object payload, \<^verbatim>\<open>post\<close> fetches the created
  object by its identifier.
\<close>

function get_object ::
    "'s env \<Rightarrow> jss \<Rightarrow> 's world \<Rightarrow> jss_type \<Rightarrow> pyval \<Rightarrow> pyval \<Rightarrow> (error + jss_result) \<times> 's world"
  and JSS_post ::
    "'s env \<Rightarrow> jss \<Rightarrow> 's world \<Rightarrow> jss_type \<Rightarrow> string \<Rightarrow> element \<Rightarrow> (error + jss_result) \<times> 's world"
where
  "get_object env j w obj_class data subset0 =
     (case normalize_subset subset0 of
        Inl e \<Rightarrow> (Inl e, w)
      | Inr sub \<Rightarrow>
          if data = PNone then
            (let url = get_url (classes env obj_class) data in
             if can_list (classes env obj_class) \<and> can_get (classes env obj_class) then
               (case is_basic sub of
                  Inl e \<Rightarrow> (Inl e, w)
                | Inr basic \<Rightarrow>
                    (case JSS_get env j w
                            (if basic \<and> obj_class = Computer then url @ ''/subset/basic'' else url) of
                       (Inl e, w') \<Rightarrow> (Inl e, w')
                     | (Inr result, w') \<Rightarrow>
                         if container (classes env obj_class) \<noteq> [] then
                           (case find_child result (container (classes env obj_class)) of
                              None \<Rightarrow> (Inl TypeError, w')
                            | Some result' \<Rightarrow> (Inr (build_jss_object_list result' obj_class), w'))
                         else (Inr (build_jss_object_list result obj_class), w')))
             else if can_get (classes env obj_class) then
               (case JSS_get env j w url of
                  (Inl e, w') \<Rightarrow> (Inl e, w')
                | (Inr xmldata, w') \<Rightarrow> (Inr (JSSObject obj_class xmldata), w'))
             else (Inl (JSSMethodNotAllowedError (meta_name (classes env obj_class))), w))
          else if is_basestring_or_int data then
            (if can_get (classes env obj_class) then
               (case subset_url (get_url (classes env obj_class) data) sub of
                  Inl e \<Rightarrow> (Inl e, w)
                | Inr url \<Rightarrow>
                    (case JSS_get env j w url of
                       (Inl e, w') \<Rightarrow> (Inl e, w')
                     | (Inr xmldata, w') \<Rightarrow>
                         if find_child xmldata ''size'' \<noteq> None
                         then (Inr (build_jss_object_list xmldata obj_class), w')
                         else (Inr (JSSObject obj_class xmldata), w')))
             else (Inl (JSSMethodNotAllowedError (meta_name (classes env obj_class))), w))
          else if is_element data then
            (if can_post (classes env obj_class) then
               JSS_post env j w obj_class (get_post_url (classes env obj_class)) (the_element data)
             else (Inl (JSSMethodNotAllowedError (meta_name (classes env obj_class))), w))
          else (Inl ValueError, w))"
| "JSS_post env j w obj_class url_path data =
     (let request_url = jss_url j @ url_path in
      case send env w (Request POST request_url (Some (tostring env data))) of
        (resp, w1) \<Rightarrow>
          if status_code resp = 201 \<and> verbose j then
            (case re_search_id (resp_text resp) of
               None \<Rightarrow> (Inl AttributeError, print_line w1 (''POST '' @ request_url @ '': Success''))
             | Some ds \<Rightarrow>
                 get_object env j (print_line w1 (''POST '' @ request_url @ '': Success''))
                   obj_class (py2_int env ds) PNone)
          else if status_code resp \<ge> 400 then
            (Inl (error_handler env JSSPostError resp), w1)
          else
            (case re_search_id (resp_text resp) of
               None \<Rightarrow> (Inl AttributeError, w1)
             | Some ds \<Rightarrow> get_object env j w1 obj_class (py2_int env ds) PNone))"
  by pat_completeness auto
termination
  by (relation "measure (\<lambda>x. case x of
         Inl (env, j, w, obj_class, data, subset0) \<Rightarrow> (if is_element data then 2 else 0)
       | Inr (env, j, w, obj_class, url_path, data) \<Rightarrow> 1)") (auto simp: py2_int_def)

declare get_object.simps [simp del] JSS_post.simps [simp del]

text \<open>
  The per-type accessors of \<^verbatim>\<open>JSS\<close> (lines 358-662) delegate to the factory with the class
  fixed.  Twelve of them take a \<^verbatim>\<open>subset\<close>; calling one of the others with a subset is an
  arity \<^verbatim>\<open>TypeError\<close> of Python.  \<open>None\<close> is an argument left out.
\<close>

definition subset_accessors :: "string list" where
  "subset_accessors =
     [''Computer'', ''EBook'', ''MacApplication'', ''ManagedPreferenceProfile'',
      ''MobileDevice'', ''MobileDeviceApplication'', ''MobileDeviceConfigurationProfile'',
      ''MobileDeviceEnrollmentProfile'', ''MobileDeviceProvisioningProfile'',
      ''OSXConfigurationProfile'', ''Peripheral'', ''Policy'']"

definition accessor ::
    "'s env \<Rightarrow> jss \<Rightarrow> 's world \<Rightarrow> jss_type \<Rightarrow> pyval option \<Rightarrow> pyval option
      \<Rightarrow> (error + jss_result) \<times> 's world" where
  "accessor env j w obj_class data sub =
     (let data' = (case data of None \<Rightarrow> PNone | Some d \<Rightarrow> d) in
      if type_name obj_class \<in> set subset_accessors then
        get_object env j w obj_class data' (case sub of None \<Rightarrow> PNone | Some s \<Rightarrow> s)
      else
        (case sub of
           None \<Rightarrow> get_object env j w obj_class data' PNone
         | Some s \<Rightarrow> (Inl TypeError, w)))"

subsection \<open>QuerySet\<close>

text \<open>
  The members of a QuerySet are objects shared with the caller, so they live in a heap
  and the QuerySet holds references.  Of a \<^verbatim>\<open>JSSObject\<close> the QuerySet reads the class,
  \<^verbatim>\<open>id\<close> (as \<^verbatim>\<open>str\<close> prints it), \<^verbatim>\<open>name\<close> and the cache marker \<^verbatim>\<open>cached\<close>, which is
  \<^verbatim>\<open>None\<close>, a \<^verbatim>\<open>bool\<close> or a time stamp.
\<close>

datatype marker = MNone | MBool bool | MTime string

record jssobject =
  py_class :: jss_type
  obj_id :: string
  obj_name :: string
  cached :: marker

type_synonym ref = nat

type_synonym heap = "ref \<Rightarrow> jssobject"

record queryset =
  items :: "ref list"
  contained_class :: jss_type

text \<open>
  \<^verbatim>\<open>QuerySet.__init__\<close> (lines 46-55).  The set comprehension over the classes has one
  element exactly when \<open>remdups\<close> of the classes has length one.
\<close>

definition QuerySet_init :: "heap \<Rightarrow> ref list \<Rightarrow> (error + queryset) \<times> heap" where
  "QuerySet_init h objects =
     (if \<not> length (remdups (map (\<lambda>i. py_class (h i)) objects)) = 1 then (Inl ValueError, h)
      else (case objects of
              [] \<Rightarrow> (Inl IndexError, h)
            | x # xs \<Rightarrow> (Inr \<lparr>items = objects, contained_class = py_class (h x)\<rparr>, h)))"








subsection \<open>Views of the factory used to state its properties\<close>

text \<open>The tests \<^verbatim>\<open>isinstance(subset, list)\<close> and \<^verbatim>\<open>isinstance(subset, basestring)\<close>.\<close>

fun is_list :: "pyval \<Rightarrow> bool" where
  "is_list (PList xs) = True"
| "is_list _ = False"

fun is_basestring :: "pyval \<Rightarrow> bool" where
  "is_basestring (PStr s) = True"
| "is_basestring (PUnicode s) = True"
| "is_basestring _ = False"

text \<open>
  Lines 738-743 and lines 763-772 of \<^verbatim>\<open>get_object\<close>, as functions of what \<^verbatim>\<open>self.jss.get\<close>
  returned: the listing built from the root or from the declared container, and the
  single object or the list of matches of a fetch.
\<close>

definition list_result ::
    "'s env \<Rightarrow> jss_type \<Rightarrow> (error + element) \<times> 's world \<Rightarrow> (error + jss_result) \<times> 's world" where
  "list_result env cls r =
     (case r of
        (Inl e, w') \<Rightarrow> (Inl e, w')
      | (Inr result, w') \<Rightarrow>
          if container (classes env cls) \<noteq> [] then
            (case find_child result (container (classes env cls)) of
               None \<Rightarrow> (Inl TypeError, w')
             | Some result' \<Rightarrow> (Inr (build_jss_object_list result' cls), w'))
          else (Inr (build_jss_object_list result cls), w'))"


text \<open>
  The specification's words for a subset: the tags requested are the strings of a
  non-empty list of strings, or the pieces of a non-empty \<^verbatim>\<open>&\<close>-delimited string; a
  false value requests nothing, and neither does a value of another shape.
\<close>

definition requested_tags :: "pyval \<Rightarrow> string list option" where
  "requested_tags sub0 =
     (case sub0 of
        PList xs \<Rightarrow> (if xs = [] then None else str_items xs)
      | PStr s \<Rightarrow> (if s = [] then None else Some (str_split CHR ''&'' s))
      | _ \<Rightarrow> None)"

text \<open>A subset is well formed when it is a false value or requests tags.\<close>

definition well_formed_subset :: "pyval \<Rightarrow> bool" where
  "well_formed_subset sub0 = (if truthy sub0 then requested_tags sub0 \<noteq> None else True)"

text \<open>
  The single tag of a subset, when it has exactly one: the one item of a one-item list
  when it is a string, or a non-empty string without \<^verbatim>\<open>&\<close>.
\<close>

definition single_tag :: "pyval \<Rightarrow> pyval option" where
  "single_tag sub0 =
     (if truthy sub0 then
        (case sub0 of
           PList xs \<Rightarrow> (case xs of [t] \<Rightarrow> (if is_basestring t then Some t else None) | _ \<Rightarrow> None)
         | PStr s \<Rightarrow> (case str_split CHR ''&'' s of [t] \<Rightarrow> Some (PStr t) | _ \<Rightarrow> None)
         | PUnicode s \<Rightarrow> (case str_split CHR ''&'' s of [t] \<Rightarrow> Some (PUnicode t) | _ \<Rightarrow> None)
         | _ \<Rightarrow> None)
      else None)"

text \<open>\<^verbatim>\<open>t.upper()\<close> of a string of either type.\<close>

definition upper_form :: "pyval \<Rightarrow> string" where
  "upper_form t = (case t of PStr s \<Rightarrow> str_upper s | PUnicode s \<Rightarrow> unicode_upper s | _ \<Rightarrow> [])"

text \<open>
  Equality of two strings without regard to the case of their ASCII letters.
\<close>

definition lower_char :: "char \<Rightarrow> char" where
  "lower_char c =
     (let n = (of_char c :: nat) in if 65 \<le> n \<and> n \<le> 90 then char_of (n + 32) else c)"

definition ci_equal :: "string \<Rightarrow> string \<Rightarrow> bool" where
  "ci_equal a b = (map lower_char a = map lower_char b)"

text \<open>
  The letters of a tag: a \<^verbatim>\<open>str\<close> as it is; a \<^verbatim>\<open>unicode\<close> with U+0131 (dotless i) read as
  \<^verbatim>\<open>i\<close> and U+017F (long s) read as \<^verbatim>\<open>s\<close>.
\<close>

fun fold_dotless :: "string \<Rightarrow> string" where
  "fold_dotless [] = []"
| "fold_dotless [c] = [c]"
| "fold_dotless (c # d # cs) =
     (if c = CHR 0xC4 \<and> d = CHR 0xB1 then CHR ''i'' # fold_dotless cs
      else if c = CHR 0xC5 \<and> d = CHR 0xBF then CHR ''s'' # fold_dotless cs
      else c # fold_dotless (d # cs))"

definition tag_letters :: "pyval \<Rightarrow> string" where
  "tag_letters t = (case t of PStr s \<Rightarrow> s | PUnicode s \<Rightarrow> fold_dotless s | _ \<Rightarrow> [])"

text \<open>
  The shortcut of a listing is requested when the subset is a single tag whose letters
  are those of \<^verbatim>\<open>basic\<close> without regard to case, and the type is Computer.
\<close>

definition basic_requested :: "jss_type \<Rightarrow> pyval \<Rightarrow> bool" where
  "basic_requested cls sub0 =
     (case single_tag sub0 of
        Some t \<Rightarrow> ci_equal (tag_letters t) ''basic'' \<and> cls = Computer
      | None \<Rightarrow> False)"

text \<open>
  The subsets a listing goes through with: a false value, a string, or a list, but for
  a one-item list whose item is not a string.
\<close>

definition listing_accepts_subset :: "pyval \<Rightarrow> bool" where
  "listing_accepts_subset sub0 =
     (if truthy sub0 then
        (case sub0 of
           PList xs \<Rightarrow> (case xs of [t] \<Rightarrow> is_basestring t | _ \<Rightarrow> True)
         | PStr s \<Rightarrow> True
         | PUnicode s \<Rightarrow> True
         | _ \<Rightarrow> False)
      else True)"



subsection \<open>A small server to run the model on\<close>

text \<open>
  Concrete inputs for the closed theorems below: a server that lists two computers,
  answers a name search with two matches, serves single computers and the activation
  code, and on a POST creates a computer with the next identifier.  Its state is the
  last identifier it gave out; the platform is one with 64-bit integers.
\<close>

definition ex_listing_xml :: string where
  "ex_listing_xml = ''<computers><size>2</size><computer><id>1</id><name>alpha</name></computer><computer><id>2</id><name>beta</name></computer></computers>''"

definition ex_listing :: element where
  "ex_listing = Element ''computers'' None
     [Element ''size'' (Some ''2'') [],
      Element ''computer'' None [Element ''id'' (Some ''1'') [], Element ''name'' (Some ''alpha'') []],
      Element ''computer'' None [Element ''id'' (Some ''2'') [], Element ''name'' (Some ''beta'') []]]"

definition ex_computer_xml :: string where
  "ex_computer_xml = ''<computer><general><id>7</id><name>gamma</name></general></computer>''"

definition ex_computer :: element where
  "ex_computer = Element ''computer'' None
     [Element ''general'' None [Element ''id'' (Some ''7'') [], Element ''name'' (Some ''gamma'') []]]"

definition ex_code_xml :: string where
  "ex_code_xml = ''<activation_code><code>abc</code></activation_code>''"

definition ex_code :: element where
  "ex_code = Element ''activation_code'' None [Element ''code'' (Some ''abc'') []]"

fun ex_dec :: "nat \<Rightarrow> string" where
  "ex_dec n = (if n < 10 then [char_of (48 + n)] else ex_dec (n div 10) @ [char_of (48 + n mod 10)])"

declare ex_dec.simps [simp del]

definition ex_computer_url :: "pyval \<Rightarrow> string" where
  "ex_computer_url d =
     (case d of
        PInt i \<Rightarrow> ''/computers/id/'' @ ex_dec (nat i)
      | PStr s \<Rightarrow> ''/computers/name/'' @ s
      | _ \<Rightarrow> ''/computers'')"

definition ex_classes :: "jss_type \<Rightarrow> descriptor" where
  "ex_classes t =
     (if t = Computer then
        \<lparr>can_list = True, can_get = True, can_post = True, container = [],
         get_url = ex_computer_url, get_post_url = ''/computers/id/0'', meta_name = ''type''\<rparr>
      else if t = JSSClass ''ActivationCode'' then
        \<lparr>can_list = False, can_get = True, can_post = False, container = [],
         get_url = (\<lambda>d. ''/activationcode''), get_post_url = ''/activationcode/id/0'',
         meta_name = ''type''\<rparr>
      else
        \<lparr>can_list = False, can_get = False, can_post = True, container = [],
         get_url = (\<lambda>d. ''/fileuploads''), get_post_url = ''/fileuploads/id/0'',
         meta_name = ''type''\<rparr>)"

definition ex_created_xml :: "nat \<Rightarrow> string" where
  "ex_created_xml n = ''<computer><general><id>'' @ ex_dec n @ ''</id><name>gamma</name></general></computer>''"

definition ex_handle :: "nat \<Rightarrow> request \<Rightarrow> response \<times> nat" where
  "ex_handle s r =
     (case req_method r of
        POST \<Rightarrow> (\<lparr>status_code = 201, resp_text = ex_created_xml (Suc s)\<rparr>, Suc s)
      | GET \<Rightarrow>
          (if req_url r = ''https://jss.example/JSSResource/computers''
              \<or> req_url r = ''https://jss.example/JSSResource/computers/subset/basic''
              \<or> req_url r = ''https://jss.example/JSSResource/computers/name/Mac''
           then (\<lparr>status_code = 200, resp_text = ex_listing_xml\<rparr>, s)
           else if req_url r = ''https://jss.example/JSSResource/activationcode''
           then (\<lparr>status_code = 200, resp_text = ex_code_xml\<rparr>, s)
           else (\<lparr>status_code = 200, resp_text = ex_computer_xml\<rparr>, s)))"

definition ex_fromstring :: "string \<Rightarrow> element option" where
  "ex_fromstring s =
     (if s = ex_listing_xml then Some ex_listing
      else if s = ex_computer_xml then Some ex_computer
      else if s = ex_code_xml then Some ex_code
      else None)"

definition ex_env :: "nat env" where
  "ex_env = \<lparr>handle = ex_handle, fromstring = ex_fromstring,
             tostring = (\<lambda>e. ''<computer><general><name>gamma</name></general></computer>''),
             error_message = (\<lambda>r. ''Response Code: error''), classes = ex_classes,
             sys_maxint = 9223372036854775807\<rparr>"

definition ex_jss :: jss where
  "ex_jss = \<lparr>base_url = ''https://jss.example'', verbose = False\<rparr>"

definition ex_world :: "nat world" where
  "ex_world = \<lparr>server = 6, sent = [], stdout = []\<rparr>"



text \<open>Four objects: three computers (markers \<^verbatim>\<open>None\<close>, \<^verbatim>\<open>False\<close>, a time stamp) and a policy.\<close>

definition ex_heap :: heap where
  "ex_heap i =
     (if i = 0 then \<lparr>py_class = Computer, obj_id = ''1'', obj_name = ''alpha'', cached = MNone\<rparr>
      else if i = 1 then \<lparr>py_class = Computer, obj_id = ''2'', obj_name = ''beta'', cached = MBool False\<rparr>
      else if i = 2 then \<lparr>py_class = Computer, obj_id = ''10'', obj_name = ''gamma'',
                          cached = MTime ''2017/01/01-10:00:00.000000''\<rparr>
      else \<lparr>py_class = JSSClass ''Policy'', obj_id = ''3'', obj_name = ''install'', cached = MBool True\<rparr>)"

section \<open>Properties\<close>

subsection \<open>Building the list of a response\<close>

lemma tag_text_dict_map_of:
  "tag_text_dict e = map_of (rev (map (\<lambda>i. (tag i, etext i)) (children e)))"
proof -
  have "foldl (\<lambda>d i. d(tag i \<mapsto> etext i)) m cs
          = m ++ map_of (rev (map (\<lambda>i. (tag i, etext i)) cs))" for m cs
    by (induction cs arbitrary: m) (simp_all add: map_add_upd_left)
  then show ?thesis by (simp add: tag_text_dict_def)
qed



subsection \<open>QuerySet construction\<close>

lemma remdups_one: "(length (remdups xs) = 1) = (xs \<noteq> [] \<and> (\<forall>x \<in> set xs. x = hd xs))"
proof -
  have "length (remdups xs) = card (set xs)"
    by (simp add: length_remdups_card_conv)
  moreover have "(card (set xs) = 1) = (xs \<noteq> [] \<and> (\<forall>x \<in> set xs. x = hd xs))"
  proof
    assume "card (set xs) = 1"
    then obtain a where a: "set xs = {a}" by (auto simp: card_1_singleton_iff)
    then have "xs \<noteq> []" by auto
    moreover from a this have "hd xs = a" by (metis hd_in_set singletonD)
    ultimately show "xs \<noteq> [] \<and> (\<forall>x \<in> set xs. x = hd xs)" using a by auto
  next
    assume h: "xs \<noteq> [] \<and> (\<forall>x \<in> set xs. x = hd xs)"
    then have "set xs = {hd xs}" by auto
    then show "card (set xs) = 1" by simp
  qed
  ultimately show ?thesis by simp
qed

text \<open>
  C7.  \<^verbatim>\<open>QuerySet.__init__\<close> succeeds exactly on a non-empty sequence whose members all have
  the class of the first one; it then holds the sequence as given and that class.  On
  every other sequence (empty, or of two or more classes) it raises \<^verbatim>\<open>ValueError\<close>.
  Either way the heap of the members is left as it was: no member is touched.
\<close>

theorem QuerySet_init_single_class:
  "QuerySet_init h objects =
     (if objects \<noteq> [] \<and> (\<forall>i \<in> set objects. py_class (h i) = py_class (h (hd objects)))
      then (Inr \<lparr>items = objects, contained_class = py_class (h (hd objects))\<rparr>, h)
      else (Inl ValueError, h))"
proof -
  have "(length (remdups (map (\<lambda>i. py_class (h i)) objects)) = 1)
        = (objects \<noteq> [] \<and> (\<forall>i \<in> set objects. py_class (h i) = py_class (h (hd objects))))"
    using remdups_one [of "map (\<lambda>i. py_class (h i)) objects"]
    by (cases objects) auto
  then show ?thesis
    by (cases objects) (simp_all add: QuerySet_init_def)
qed

theorem QuerySet_init_single_class_witness:
  "QuerySet_init ex_heap [0, 1, 2] = (Inr \<lparr>items = [0, 1, 2], contained_class = Computer\<rparr>, ex_heap)
   \<and> QuerySet_init ex_heap [0, 3] = (Inl ValueError, ex_heap)
   \<and> QuerySet_init ex_heap [] = (Inl ValueError, ex_heap)"
  using QuerySet_init_single_class [of ex_heap "[0, 1, 2]"]
    QuerySet_init_single_class [of ex_heap "[0, 3]"]
    QuerySet_init_single_class [of ex_heap "[]"]
  by (simp add: ex_heap_def Computer_def)

subsection \<open>Strings\<close>

lemma lower_upper_char: "lower_char (upper_char c) = lower_char c"
  by (auto simp: lower_char_def upper_char_def Let_def)

lemma upper_lower_char: "upper_char (lower_char c) = upper_char c"
  by (auto simp: lower_char_def upper_char_def Let_def)

lemma lower_BASIC: "map lower_char ''BASIC'' = ''basic''"
  by code_simp

lemma lower_basic: "map lower_char ''basic'' = ''basic''"
  by code_simp

lemma upper_basic: "map upper_char ''basic'' = ''BASIC''"
  by code_simp

text \<open>The test of the code, \<^verbatim>\<open>.upper() == "BASIC"\<close>, is equality without regard to case.\<close>

lemma upper_basic_iff: "(str_upper s = ''BASIC'') = ci_equal s ''basic''"
proof
  assume "str_upper s = ''BASIC''"
  then have "map lower_char (map upper_char s) = map lower_char ''BASIC''"
    by (simp add: str_upper_def)
  then have "map lower_char s = map lower_char ''BASIC''"
    by (simp only: map_map comp_def lower_upper_char)
  then show "ci_equal s ''basic''"
    by (simp only: ci_equal_def lower_BASIC lower_basic)
next
  assume "ci_equal s ''basic''"
  then have "map upper_char (map lower_char s) = map upper_char (map lower_char ''basic'')"
    by (simp only: ci_equal_def)
  then have "map upper_char s = map upper_char ''basic''"
    by (simp only: map_map comp_def upper_lower_char)
  then show "str_upper s = ''BASIC''"
    by (simp only: str_upper_def upper_basic)
qed

lemma str_items_map_PStr: "str_items (map PStr ts) = Some ts"
  by (induction ts) simp_all


lemma str_split_nonempty: "str_split c s \<noteq> []"
  by (induction s) (auto split: list.splits)

lemma quote_append: "quote (a @ b) = quote a @ quote b"
  by (simp add: quote_def)

lemma quote_basic: "quote ''/subset/basic'' = ''/subset/basic''"
  by code_simp



text \<open>And it returns a group whenever the pattern occurs.\<close>

lemma match_id_pattern:
  assumes "ds \<noteq> []" "\<forall>c \<in> set ds. is_digit c"
  shows "match_id (''<id>'' @ ds @ ''</id>'' @ post) = Some ds"
proof -
  have nd: "\<not> is_digit CHR ''<''" by code_simp
  have "takeWhile is_digit (ds @ ''</id>'' @ post) = ds"
    using assms(2) nd by (simp add: takeWhile_append2)
  moreover have "dropWhile is_digit (ds @ ''</id>'' @ post) = ''</id>'' @ post"
    using assms(2) nd by (simp add: dropWhile_append2)
  ultimately show ?thesis using assms(1) by (simp add: match_id_def)
qed

lemma re_search_id_finds:
  assumes "ds \<noteq> []" "\<forall>c \<in> set ds. is_digit c"
  shows "re_search_id (pre @ ''<id>'' @ ds @ ''</id>'' @ post) \<noteq> None"
proof (induction pre)
  case Nil
  then show ?case using match_id_pattern [OF assms, of post] by simp
next
  case (Cons c pre)
  then show ?case by (simp split: option.splits)
qed

subsection \<open>The subset of a call\<close>

lemma well_formed_subset_iff:
  "well_formed_subset sub0 = (\<not> truthy sub0 \<or> requested_tags sub0 \<noteq> None)"
  by (simp add: well_formed_subset_def)



lemma normalize_falsy: "\<not> truthy sub0 \<Longrightarrow> normalize_subset sub0 = Inr None"
  by (simp add: normalize_subset_def)

lemma normalize_malformed:
  "truthy sub0 \<Longrightarrow> \<not> is_list sub0 \<Longrightarrow> \<not> is_basestring sub0 \<Longrightarrow> normalize_subset sub0 = Inl TypeError"
  by (cases sub0) (simp_all add: normalize_subset_def)

lemma normalize_cases:
  "normalize_subset sub0 = Inl TypeError \<or> (\<exists>s. normalize_subset sub0 = Inr s)"
  by (cases sub0) (simp_all add: normalize_subset_def)

text \<open>
  The upper case of a \<^verbatim>\<open>unicode\<close> is the upper case of its letters, and the test of the
  code on a tag, \<^verbatim>\<open>.upper() == "BASIC"\<close>, is equality of its letters with \<^verbatim>\<open>basic\<close>
  without regard to case.
\<close>

lemma upper_is: "upper_char CHR ''i'' = CHR ''I''" "upper_char CHR ''s'' = CHR ''S''"
  by code_simp+

lemma upper_fold_dotless: "unicode_upper s = str_upper (fold_dotless s)"
  by (induction s rule: unicode_upper.induct) (simp_all add: str_upper_def upper_is)

lemma upper_form_basic:
  "is_basestring t \<Longrightarrow> (upper_form t = ''BASIC'') = ci_equal (tag_letters t) ''basic''"
  by (cases t) (simp_all add: upper_form_def tag_letters_def upper_basic_iff upper_fold_dotless)

lemma single_tag_text: "single_tag sub0 = Some t \<Longrightarrow> is_basestring t"
  by (cases sub0) (auto simp: single_tag_def split: if_splits list.splits)

lemma basic_requested_upper:
  "basic_requested cls sub0
     = ((case single_tag sub0 of Some t \<Rightarrow> upper_form t = ''BASIC'' | None \<Rightarrow> False) \<and> cls = Computer)"
proof (cases "single_tag sub0")
  case None
  then show ?thesis by (simp add: basic_requested_def)
next
  case (Some t)
  then show ?thesis
    using upper_form_basic [OF single_tag_text [OF Some]] by (simp add: basic_requested_def)
qed

lemma is_basic_single_tag:
  assumes "normalize_subset sub0 = Inr sub" "is_basic sub = Inr b"
  shows "b = (case single_tag sub0 of Some t \<Rightarrow> upper_form t = ''BASIC'' | None \<Rightarrow> False)"
proof (cases "truthy sub0")
  case False
  with assms show ?thesis by (simp add: normalize_falsy is_basic_def single_tag_def)
next
  case True
  show ?thesis
  proof (cases sub0)
    case (PList xs)
    with True assms(1) have sub: "sub = Some xs" by (simp add: normalize_subset_def)
    show ?thesis
    proof (cases xs)
      case Nil
      with sub assms(2) PList show ?thesis by (simp add: is_basic_def single_tag_def)
    next
      case (Cons x xs')
      show ?thesis
      proof (cases xs')
        case Nil
        with Cons sub assms(2) PList True show ?thesis
          by (cases x) (simp_all add: is_basic_def single_tag_def upper_form_def)
      next
        case (Cons y ys)
        with \<open>xs = x # xs'\<close> sub assms(2) PList True show ?thesis
          by (simp add: is_basic_def single_tag_def)
      qed
    qed
  next
    case (PStr s)
    with True assms(1) have sub: "sub = Some (map PStr (str_split CHR ''&'' s))"
      by (simp add: normalize_subset_def)
    show ?thesis
    proof (cases "str_split CHR ''&'' s")
      case Nil
      then show ?thesis by (simp add: str_split_nonempty)
    next
      case (Cons t ts)
      with sub assms(2) PStr True show ?thesis
        by (cases ts) (simp_all add: is_basic_def single_tag_def upper_form_def)
    qed
  next
    case (PUnicode s)
    with True assms(1) have sub: "sub = Some (map PUnicode (str_split CHR ''&'' s))"
      by (simp add: normalize_subset_def)
    show ?thesis
    proof (cases "str_split CHR ''&'' s")
      case Nil
      then show ?thesis by (simp add: str_split_nonempty)
    next
      case (Cons t ts)
      with sub assms(2) PUnicode True show ?thesis
        by (cases ts) (simp_all add: is_basic_def single_tag_def upper_form_def)
    qed
  qed (use True assms(1) in \<open>simp_all add: normalize_subset_def\<close>)
qed

lemma is_basic_normalized:
  assumes "normalize_subset sub0 = Inr sub" "is_basic sub = Inr b"
  shows "(b \<and> cls = Computer) = basic_requested cls sub0"
  using is_basic_single_tag [OF assms] by (simp add: basic_requested_upper)

lemma not_requested_if_malformed:
  "normalize_subset sub0 = Inl e \<Longrightarrow> \<not> basic_requested cls sub0"
  by (cases sub0) (auto simp: normalize_subset_def basic_requested_def single_tag_def split: if_splits)

lemma not_requested_if_no_upper:
  assumes "normalize_subset sub0 = Inr sub" "is_basic sub = Inl e"
  shows "\<not> basic_requested cls sub0"
proof -
  have "single_tag sub0 = None"
  proof (cases "single_tag sub0")
    case (Some t)
    have False
    proof (cases sub0)
      case (PList xs)
      with Some have xs: "xs = [t]" "is_basestring t" "truthy sub0"
        by (auto simp: single_tag_def split: if_splits list.splits)
      with PList assms(1) have "sub = Some [t]" by (simp add: normalize_subset_def)
      with assms(2) xs(2) show ?thesis by (cases t) (simp_all add: is_basic_def)
    next
      case (PStr s)
      with Some obtain u where t: "str_split CHR ''&'' s = [u]" "truthy sub0"
        by (auto simp: single_tag_def split: if_splits list.splits)
      with PStr assms show ?thesis by (auto simp: normalize_subset_def is_basic_def)
    next
      case (PUnicode s)
      with Some obtain u where t: "str_split CHR ''&'' s = [u]" "truthy sub0"
        by (auto simp: single_tag_def split: if_splits list.splits)
      with PUnicode assms show ?thesis by (auto simp: normalize_subset_def is_basic_def)
    qed (use Some in \<open>auto simp: single_tag_def split: if_splits\<close>)
    then show ?thesis ..
  qed simp
  then show ?thesis by (simp add: basic_requested_def)
qed

lemma listing_accepts_normal:
  assumes "listing_accepts_subset sub0"
  shows "\<exists>sub b. normalize_subset sub0 = Inr sub \<and> is_basic sub = Inr b"
proof (cases "truthy sub0")
  case False
  then show ?thesis by (auto simp: normalize_falsy is_basic_def)
next
  case True
  show ?thesis
  proof (cases sub0)
    case (PList xs)
    show ?thesis
    proof (cases xs)
      case Nil
      with PList True show ?thesis by simp
    next
      case (Cons x xs')
      show ?thesis
      proof (cases xs')
        case Nil
        with Cons PList True assms have "is_basestring x" by (simp add: listing_accepts_subset_def)
        with Nil Cons PList show ?thesis
          by (cases x) (auto simp: normalize_subset_def is_basic_def)
      next
        case (Cons y ys)
        with \<open>xs = x # xs'\<close> PList show ?thesis by (auto simp: normalize_subset_def is_basic_def)
      qed
    qed
  next
    case (PStr s)
    with True show ?thesis
      by (cases "str_split CHR ''&'' s") (auto simp: normalize_subset_def is_basic_def)
  next
    case (PUnicode s)
    with True show ?thesis
      by (cases "str_split CHR ''&'' s") (auto simp: normalize_subset_def is_basic_def)
  qed (use True assms in \<open>simp_all add: listing_accepts_subset_def\<close>)
qed

lemma well_formed_accepted: "well_formed_subset sub0 \<Longrightarrow> listing_accepts_subset sub0"
proof (cases sub0)
  case (PList xs)
  assume "well_formed_subset sub0"
  with PList show ?thesis
    by (cases xs rule: str_items.cases)
      (auto simp: well_formed_subset_def listing_accepts_subset_def requested_tags_def split: list.splits)
qed (auto simp: well_formed_subset_def listing_accepts_subset_def requested_tags_def split: if_splits)


subsection \<open>The paths through \<^verbatim>\<open>get_object\<close>\<close>

lemma sent_JSS_get:
  "sent (snd (JSS_get env j w p)) = sent w @ [Request GET (jss_url j @ quote p) None]"
  by (auto simp: JSS_get_def send_def print_line_def Let_def split: prod.splits option.splits)

lemma snd_list_result: "snd (list_result env cls r) = snd r"
  by (auto simp: list_result_def split: prod.splits sum.splits option.splits)



lemma get_object_malformed_subset:
  "normalize_subset sub0 = Inl e \<Longrightarrow> get_object env j w cls data sub0 = (Inl e, w)"
  by (simp add: get_object.simps)

lemma get_object_falsy_subset:
  "\<not> truthy sub0 \<Longrightarrow> get_object env j w cls data sub0 = get_object env j w cls data PNone"
  by (simp add: get_object.simps normalize_falsy)

lemma get_object_other_data:
  assumes "data \<noteq> PNone" "\<not> is_basestring_or_int data" "\<not> is_element data"
    and "normalize_subset sub0 = Inr s"
  shows "get_object env j w cls data sub0 = (Inl ValueError, w)"
  using assms by (simp add: get_object.simps)

lemma get_object_listing:
  assumes "can_list (classes env cls)" "can_get (classes env cls)"
    and "normalize_subset sub0 = Inr sub" "is_basic sub = Inr b"
  shows "get_object env j w cls PNone sub0 =
           list_result env cls (JSS_get env j w
             (if b \<and> cls = Computer then get_url (classes env cls) PNone @ ''/subset/basic''
              else get_url (classes env cls) PNone))"
  using assms by (simp add: get_object.simps list_result_def Let_def)

lemma get_object_listing_error:
  assumes "can_list (classes env cls)" "can_get (classes env cls)"
    and "normalize_subset sub0 = Inr sub" "is_basic sub = Inl e"
  shows "get_object env j w cls PNone sub0 = (Inl e, w)"
  using assms by (simp add: get_object.simps)

lemma get_object_listing_ok:
  assumes "can_list (classes env cls)" "can_get (classes env cls)"
    and "listing_accepts_subset sub0"
  shows "get_object env j w cls PNone sub0 =
           list_result env cls (JSS_get env j w
             (get_url (classes env cls) PNone @ (if basic_requested cls sub0 then ''/subset/basic'' else [])))"
proof -
  from listing_accepts_normal [OF assms(3)] obtain sub b
    where n: "normalize_subset sub0 = Inr sub" and b: "is_basic sub = Inr b" by blast
  show ?thesis
    using get_object_listing [OF assms(1,2) n b, of j w] is_basic_normalized [OF n b, of cls]
    by auto
qed

lemma get_object_listing_wf:
  assumes "can_list (classes env cls)" "can_get (classes env cls)"
    and "\<not> truthy sub0 \<or> requested_tags sub0 \<noteq> None"
  shows "get_object env j w cls PNone sub0 =
           list_result env cls (JSS_get env j w
             (get_url (classes env cls) PNone @ (if basic_requested cls sub0 then ''/subset/basic'' else [])))"
  using get_object_listing_ok [OF assms(1,2), of sub0 j w] well_formed_accepted [of sub0] assms(3)
  by (simp add: well_formed_subset_iff)





subsection \<open>The example server, evaluated\<close>

lemma ex_quote_paths:
  "quote ''/computers'' = ''/computers''"
  "quote ''/activationcode'' = ''/activationcode''"
  "quote ''/computers/id/7'' = ''/computers/id/7''"
  "quote ''/computers/name/Mac'' = ''/computers/name/Mac''"
  "quote ''/computers/subset/basic'' = ''/computers/subset/basic''"
  "quote ''/computers/id/7/subset/purchasing&general'' = ''/computers/id/7/subset/purchasing%26general''"
  by code_simp+

lemma ex_computer_urls:
  "ex_computer_url PNone = ''/computers''"
  "ex_computer_url (PInt 7) = ''/computers/id/7''"
  "ex_computer_url (PStr ''Mac'') = ''/computers/name/Mac''"
  by code_simp+

lemma ex_descriptors:
  "classes ex_env Computer =
     \<lparr>can_list = True, can_get = True, can_post = True, container = [],
      get_url = ex_computer_url, get_post_url = ''/computers/id/0'', meta_name = ''type''\<rparr>"
  "classes ex_env (JSSClass ''ActivationCode'') =
     \<lparr>can_list = False, can_get = True, can_post = False, container = [],
      get_url = (\<lambda>d. ''/activationcode''), get_post_url = ''/activationcode/id/0'',
      meta_name = ''type''\<rparr>"
  "classes ex_env (JSSClass ''FileUpload'') =
     \<lparr>can_list = False, can_get = False, can_post = True, container = [],
      get_url = (\<lambda>d. ''/fileuploads''), get_post_url = ''/fileuploads/id/0'',
      meta_name = ''type''\<rparr>"
  by (simp_all add: ex_env_def ex_classes_def Computer_def)

lemma ex_xml_distinct:
  "ex_computer_xml \<noteq> ex_listing_xml" "ex_code_xml \<noteq> ex_listing_xml" "ex_code_xml \<noteq> ex_computer_xml"
  by (simp_all add: ex_computer_xml_def ex_listing_xml_def ex_code_xml_def)

lemma ex_get_listing:
  "JSS_get ex_env ex_jss ex_world ''/computers''
     = (Inr ex_listing, ex_world\<lparr>sent := [Request GET ''https://jss.example/JSSResource/computers'' None]\<rparr>)"
  by (simp add: JSS_get_def send_def ex_quote_paths jss_url_def ex_jss_def ex_env_def ex_world_def
      ex_handle_def ex_fromstring_def)

lemma ex_get_basic:
  "JSS_get ex_env ex_jss ex_world ''/computers/subset/basic''
     = (Inr ex_listing,
        ex_world\<lparr>sent := [Request GET ''https://jss.example/JSSResource/computers/subset/basic'' None]\<rparr>)"
  by (simp add: JSS_get_def send_def ex_quote_paths jss_url_def ex_jss_def ex_env_def ex_world_def
      ex_handle_def ex_fromstring_def)


lemma ex_get_code:
  "JSS_get ex_env ex_jss ex_world ''/activationcode''
     = (Inr ex_code, ex_world\<lparr>sent := [Request GET ''https://jss.example/JSSResource/activationcode'' None]\<rparr>)"
  by (simp add: JSS_get_def send_def ex_quote_paths jss_url_def ex_jss_def ex_env_def ex_world_def
      ex_handle_def ex_fromstring_def ex_xml_distinct)




lemma ex_list_all:
  "get_object ex_env ex_jss ex_world Computer PNone PNone
     = (Inr (build_jss_object_list ex_listing Computer),
        ex_world\<lparr>sent := [Request GET ''https://jss.example/JSSResource/computers'' None]\<rparr>)"
  using get_object_listing_wf [of ex_env Computer PNone ex_jss ex_world]
  by (simp add: ex_descriptors basic_requested_def single_tag_def ex_computer_urls ex_get_listing
      list_result_def)


lemma ex_ci_Basic: "ci_equal ''Basic'' ''basic''"
  by code_simp















subsection \<open>QuerySet rendering\<close>







subsection \<open>Calls without a query argument\<close>

text \<open>
  C1 (as amended).  For a type whose descriptor disallows get, \<^verbatim>\<open>get_object\<close> and the
  accessor, called with no query argument and no subset, raise
  \<^verbatim>\<open>JSSMethodNotAllowedError\<close> and leave the world as it was: no request is sent.  A type
  that disallows listing but allows get is not refused: the call is one GET of the
  type's URL, and its result a single object built from the response.
\<close>

theorem no_argument_needs_get:
  "(\<not> can_get (classes env cls) \<longrightarrow>
      get_object env j w cls PNone PNone
        = (Inl (JSSMethodNotAllowedError (meta_name (classes env cls))), w)
      \<and> accessor env j w cls None None
        = (Inl (JSSMethodNotAllowedError (meta_name (classes env cls))), w))
   \<and> (\<not> can_list (classes env cls) \<and> can_get (classes env cls) \<longrightarrow>
        get_object env j w cls PNone PNone
          = (case JSS_get env j w (get_url (classes env cls) PNone) of
               (Inl e, w') \<Rightarrow> (Inl e, w')
             | (Inr xmldata, w') \<Rightarrow> (Inr (JSSObject cls xmldata), w')))"
proof -
  have n: "normalize_subset PNone = Inr None" by (simp add: normalize_subset_def)
  have "\<not> can_get (classes env cls) \<Longrightarrow> get_object env j w cls PNone PNone
        = (Inl (JSSMethodNotAllowedError (meta_name (classes env cls))), w)"
    by (simp add: get_object.simps n)
  moreover have "accessor env j w cls None None = get_object env j w cls PNone PNone"
    by (simp add: accessor_def)
  moreover have "\<not> can_list (classes env cls) \<and> can_get (classes env cls) \<Longrightarrow>
        get_object env j w cls PNone PNone
          = (case JSS_get env j w (get_url (classes env cls) PNone) of
               (Inl e, w') \<Rightarrow> (Inl e, w')
             | (Inr xmldata, w') \<Rightarrow> (Inr (JSSObject cls xmldata), w'))"
    by (simp add: get_object.simps n)
  ultimately show ?thesis by simp
qed

theorem no_argument_needs_get_witness:
  "\<not> can_get (classes ex_env (JSSClass ''FileUpload''))
   \<and> get_object ex_env ex_jss ex_world (JSSClass ''FileUpload'') PNone PNone
       = (Inl (JSSMethodNotAllowedError ''type''), ex_world)
   \<and> accessor ex_env ex_jss ex_world (JSSClass ''FileUpload'') None None
       = (Inl (JSSMethodNotAllowedError ''type''), ex_world)"
  using no_argument_needs_get [of ex_env "JSSClass ''FileUpload''" ex_jss ex_world]
  by (simp add: ex_descriptors)

text \<open>
  The claim as stated fails on the activation code, which cannot be listed but can be
  fetched: the call with no argument sends a GET and returns an object.
\<close>

theorem no_list_but_get_counterexample:
  "\<not> can_list (classes ex_env (JSSClass ''ActivationCode''))
   \<and> get_object ex_env ex_jss ex_world (JSSClass ''ActivationCode'') PNone PNone
       = (Inr (JSSObject (JSSClass ''ActivationCode'') ex_code),
          ex_world\<lparr>sent := [Request GET ''https://jss.example/JSSResource/activationcode'' None]\<rparr>)"
  by (simp add: get_object.simps normalize_subset_def ex_descriptors ex_get_code)

lemma ex_dotless:
  "unicode_upper (''bas'' @ [CHR 0xC4, CHR 0xB1] @ ''c'') = ''BASIC''"
  "\<not> ci_equal (''bas'' @ [CHR 0xC4, CHR 0xB1] @ ''c'') ''basic''"
  "ci_equal (fold_dotless (''bas'' @ [CHR 0xC4, CHR 0xB1] @ ''c'')) ''basic''"
  by code_simp+

text \<open>
  C9 (as amended).  On a type that supports list and get, a call with no query
  argument requests the collection URL with \<^verbatim>\<open>/subset/basic\<close> appended exactly when the
  subset is a single tag whose letters are those of \<^verbatim>\<open>basic\<close> without regard to case and
  the type is Computer, where in a \<^verbatim>\<open>unicode\<close> tag the dotless i (U+0131) counts as \<^verbatim>\<open>i\<close>
  and the long s (U+017F) as \<^verbatim>\<open>s\<close>, as \<^verbatim>\<open>.upper()\<close> has it: the request logged is the GET
  of that path if and only if \<open>basic_requested\<close> holds, whatever the subset is.  For a
  subset the listing goes through with, the call is the listing built from the GET of
  the collection URL, with or without \<^verbatim>\<open>/subset/basic\<close> accordingly.
\<close>

theorem listing_basic_shortcut:
  assumes "can_list (classes env cls)" "can_get (classes env cls)"
  shows "((sent (snd (get_object env j w cls PNone sub0))
             = sent w @ [Request GET (jss_url j @ quote (get_url (classes env cls) PNone @ ''/subset/basic'')) None])
          = basic_requested cls sub0)
       \<and> (listing_accepts_subset sub0 \<longrightarrow>
            get_object env j w cls PNone sub0
              = list_result env cls (JSS_get env j w
                  (get_url (classes env cls) PNone
                     @ (if basic_requested cls sub0 then ''/subset/basic'' else []))))"
proof -
  let ?url = "get_url (classes env cls) PNone"
  let ?r = "get_object env j w cls PNone sub0"
  have first: "(sent (snd ?r) = sent w @ [Request GET (jss_url j @ quote (?url @ ''/subset/basic'')) None])
          = basic_requested cls sub0"
  proof (cases "normalize_subset sub0")
    case (Inl e)
    then have "?r = (Inl e, w)" by (rule get_object_malformed_subset)
    then show ?thesis using not_requested_if_malformed [OF Inl, of cls] by simp
  next
    case (Inr sub)
    show ?thesis
    proof (cases "is_basic sub")
      case (Inl e)
      then have "?r = (Inl e, w)" using get_object_listing_error [OF assms Inr] by simp
      then show ?thesis using not_requested_if_no_upper [OF Inr Inl, of cls] by simp
    next
      case (Inr b)
      have "sent (snd ?r) = sent w @ [Request GET (jss_url j @ quote
              (if b \<and> cls = Computer then ?url @ ''/subset/basic'' else ?url)) None]"
        using get_object_listing [OF assms \<open>normalize_subset sub0 = Inr sub\<close> Inr, of j w]
        by (simp only: snd_list_result sent_JSS_get)
      then show ?thesis
        using is_basic_normalized [OF \<open>normalize_subset sub0 = Inr sub\<close> Inr, of cls]
        by (auto simp: quote_append quote_basic)
    qed
  qed
  have second: "listing_accepts_subset sub0 \<Longrightarrow>
            ?r = list_result env cls (JSS_get env j w
                  (?url @ (if basic_requested cls sub0 then ''/subset/basic'' else [])))"
    by (rule get_object_listing_ok [OF assms])
  from first second show ?thesis by blast
qed

theorem listing_basic_shortcut_witness:
  "basic_requested Computer (PStr ''Basic'')
   \<and> get_object ex_env ex_jss ex_world Computer PNone (PStr ''Basic'')
       = (Inr (build_jss_object_list ex_listing Computer),
          ex_world\<lparr>sent := [Request GET ''https://jss.example/JSSResource/computers/subset/basic'' None]\<rparr>)
   \<and> \<not> basic_requested Computer (PList [PStr ''basic'', PStr ''general''])
   \<and> get_object ex_env ex_jss ex_world Computer PNone (PList [PStr ''basic'', PStr ''general''])
       = (Inr (build_jss_object_list ex_listing Computer),
          ex_world\<lparr>sent := [Request GET ''https://jss.example/JSSResource/computers'' None]\<rparr>)"
  using listing_basic_shortcut [of ex_env Computer ex_jss ex_world "PStr ''Basic''"]
    listing_basic_shortcut [of ex_env Computer ex_jss ex_world "PList [PStr ''basic'', PStr ''general'']"]
  by (simp add: ex_descriptors basic_requested_def single_tag_def tag_letters_def
      listing_accepts_subset_def ex_ci_Basic ex_computer_urls ex_get_listing ex_get_basic list_result_def)

text \<open>
  The claim as stated fails on a \<^verbatim>\<open>unicode\<close> tag: the tag spelt \<^verbatim>\<open>b\<close>, \<^verbatim>\<open>a\<close>, \<^verbatim>\<open>s\<close>,
  dotless i (U+0131), \<^verbatim>\<open>c\<close> is not \<^verbatim>\<open>basic\<close> in any letter case, yet its \<^verbatim>\<open>.upper()\<close>
  is \<^verbatim>\<open>BASIC\<close> and the listing of the computers is requested with \<^verbatim>\<open>/subset/basic\<close>.
\<close>

theorem dotless_basic_counterexample:
  "\<not> ci_equal (''bas'' @ [CHR 0xC4, CHR 0xB1] @ ''c'') ''basic''
   \<and> get_object ex_env ex_jss ex_world Computer PNone
         (PList [PUnicode (''bas'' @ [CHR 0xC4, CHR 0xB1] @ ''c'')])
       = (Inr (build_jss_object_list ex_listing Computer),
          ex_world\<lparr>sent := [Request GET ''https://jss.example/JSSResource/computers/subset/basic'' None]\<rparr>)"
proof -
  have "get_object ex_env ex_jss ex_world Computer PNone
          (PList [PUnicode (''bas'' @ [CHR 0xC4, CHR 0xB1] @ ''c'')])
        = list_result ex_env Computer (JSS_get ex_env ex_jss ex_world
            (get_url (classes ex_env Computer) PNone @ ''/subset/basic''))"
    using get_object_listing [of ex_env Computer
        "PList [PUnicode (''bas'' @ [CHR 0xC4, CHR 0xB1] @ ''c'')]"
        "Some [PUnicode (''bas'' @ [CHR 0xC4, CHR 0xB1] @ ''c'')]" True ex_jss ex_world]
      ex_dotless(1)
    by (simp add: ex_descriptors normalize_subset_def is_basic_def)
  then show ?thesis
    using ex_dotless(2)
    by (simp add: ex_descriptors ex_computer_urls ex_get_basic list_result_def)
qed

text \<open>
  C10 (as amended).  On a type that supports list and get, a call with no query
  argument and a subset the listing goes through with (a false value, a string, or a
  list other than a one-item list whose item is not a string) that does not request
  the shortcut (it is not a single tag with the letters of \<^verbatim>\<open>basic\<close> on Computer) is the
  same call as with no subset: the same request, the same result, the same world
  afterwards.
\<close>

theorem listing_ignores_subset:
  assumes "can_list (classes env cls)" "can_get (classes env cls)"
    and "listing_accepts_subset sub0"
    and "\<not> basic_requested cls sub0"
  shows "get_object env j w cls PNone sub0 = get_object env j w cls PNone PNone"
proof -
  have "\<not> basic_requested cls PNone" "listing_accepts_subset PNone"
    by (simp_all add: basic_requested_def single_tag_def listing_accepts_subset_def)
  then show ?thesis
    using get_object_listing_ok [OF assms(1,2,3), of j w]
      get_object_listing_ok [OF assms(1,2), of PNone j w] assms(4)
    by simp
qed

theorem listing_ignores_subset_witness:
  "listing_accepts_subset (PStr ''general&purchasing'')
   \<and> \<not> basic_requested Computer (PStr ''general&purchasing'')
   \<and> get_object ex_env ex_jss ex_world Computer PNone (PStr ''general&purchasing'')
       = get_object ex_env ex_jss ex_world Computer PNone PNone
   \<and> listing_accepts_subset (PList [PInt 5, PUnicode ''purchasing''])
   \<and> get_object ex_env ex_jss ex_world Computer PNone (PList [PInt 5, PUnicode ''purchasing''])
       = get_object ex_env ex_jss ex_world Computer PNone PNone"
  using listing_ignores_subset [of ex_env Computer "PStr ''general&purchasing''" ex_jss ex_world]
    listing_ignores_subset [of ex_env Computer "PList [PInt 5, PUnicode ''purchasing'']" ex_jss ex_world]
  by (simp add: ex_descriptors basic_requested_def single_tag_def listing_accepts_subset_def)

text \<open>
  The claim as stated fails on a subset that is true and neither a list nor a string:
  the listing with subset \<^verbatim>\<open>5\<close> raises \<^verbatim>\<open>TypeError\<close> and sends nothing, where the listing
  with no subset returns the two computers.
\<close>

theorem malformed_subset_listing_counterexample:
  "get_object ex_env ex_jss ex_world Computer PNone (PInt 5) = (Inl TypeError, ex_world)
   \<and> get_object ex_env ex_jss ex_world Computer PNone PNone
       = (Inr (build_jss_object_list ex_listing Computer),
          ex_world\<lparr>sent := [Request GET ''https://jss.example/JSSResource/computers'' None]\<rparr>)"
  using get_object_malformed_subset [of "PInt 5" TypeError ex_env ex_jss ex_world Computer PNone]
  by (simp add: normalize_subset_def ex_list_all)

subsection \<open>Argument types\<close>

text \<open>
  C8 (as amended).  \<^verbatim>\<open>get_object\<close> raises \<^verbatim>\<open>TypeError\<close>, with the world as it was, for every
  subset that is true (in Python's sense) and neither a list nor a string, whatever the
  query argument is; and it raises an Invalid-input failure (\<^verbatim>\<open>TypeError\<close> for such a
  subset, \<^verbatim>\<open>ValueError\<close> otherwise), with the world as it was, for every query argument that
  is none of \<^verbatim>\<open>None\<close>, an integer, a string or an element.  A subset that is false is
  treated as no subset, whatever its type.
\<close>

theorem invalid_input_before_request:
  "(truthy sub0 \<and> \<not> is_list sub0 \<and> \<not> is_basestring sub0 \<longrightarrow>
      get_object env j w cls data sub0 = (Inl TypeError, w))
   \<and> (data \<noteq> PNone \<and> \<not> is_basestring_or_int data \<and> \<not> is_element data \<longrightarrow>
        (\<exists>e. invalid_input e \<and> get_object env j w cls data sub0 = (Inl e, w)))
   \<and> (\<not> truthy sub0 \<longrightarrow>
        get_object env j w cls data sub0 = get_object env j w cls data PNone)"
proof -
  have c: "\<not> truthy sub0 \<Longrightarrow> get_object env j w cls data sub0 = get_object env j w cls data PNone"
    by (rule get_object_falsy_subset)
  have a: "truthy sub0 \<and> \<not> is_list sub0 \<and> \<not> is_basestring sub0 \<Longrightarrow>
      get_object env j w cls data sub0 = (Inl TypeError, w)"
    by (simp add: normalize_malformed get_object_malformed_subset)
  have b: "\<exists>e. invalid_input e \<and> get_object env j w cls data sub0 = (Inl e, w)"
    if d: "data \<noteq> PNone \<and> \<not> is_basestring_or_int data \<and> \<not> is_element data"
  proof -
    from normalize_cases [of sub0] show ?thesis
    proof
      assume "normalize_subset sub0 = Inl TypeError"
      then have "get_object env j w cls data sub0 = (Inl TypeError, w)"
        by (rule get_object_malformed_subset)
      then show ?thesis by (auto simp: invalid_input_def)
    next
      assume "\<exists>s. normalize_subset sub0 = Inr s"
      then obtain s where "normalize_subset sub0 = Inr s" ..
      with d have "get_object env j w cls data sub0 = (Inl ValueError, w)"
        by (simp add: get_object_other_data)
      then show ?thesis by (auto simp: invalid_input_def)
    qed
  qed
  from a b c show ?thesis by blast
qed

theorem invalid_input_before_request_witness:
  "get_object ex_env ex_jss ex_world Computer (PInt 7) (PInt 5) = (Inl TypeError, ex_world)
   \<and> (\<exists>e. invalid_input e
          \<and> get_object ex_env ex_jss ex_world Computer (PTuple [PInt 7]) (PList [PStr ''general''])
              = (Inl e, ex_world))
   \<and> get_object ex_env ex_jss ex_world Computer PNone (PTuple [])
       = get_object ex_env ex_jss ex_world Computer PNone PNone"
  using invalid_input_before_request [of "PInt 5" ex_env ex_jss ex_world Computer "PInt 7"]
    invalid_input_before_request [of "PList [PStr ''general'']" ex_env ex_jss ex_world Computer "PTuple [PInt 7]"]
    invalid_input_before_request [of "PTuple []" ex_env ex_jss ex_world Computer PNone]
  by simp

text \<open>
  The claim as stated fails on a subset that is present, neither a list nor a string,
  and false: with subset \<^verbatim>\<open>0\<close> the listing of the computers is requested and returned.
\<close>

theorem falsy_subset_counterexample:
  "PInt 0 \<noteq> PNone \<and> \<not> is_list (PInt 0) \<and> \<not> is_basestring (PInt 0)
   \<and> get_object ex_env ex_jss ex_world Computer PNone (PInt 0)
       = (Inr (build_jss_object_list ex_listing Computer),
          ex_world\<lparr>sent := [Request GET ''https://jss.example/JSSResource/computers'' None]\<rparr>)"
  using get_object_listing_wf [of ex_env Computer "PInt 0" ex_jss ex_world]
  by (simp add: ex_descriptors basic_requested_def single_tag_def ex_computer_urls ex_get_listing
      list_result_def)

subsection \<open>Fetching by identifier or by name\<close>





subsection \<open>Creating an object\<close>




end
